theory Spec2Isabelle
  imports Main
begin

section \<open>The message router of ompl/util/src/Console.cpp\<close>

text \<open>
  The file keeps one process-wide \<open>DefaultOutputHandler\<close> structure and changes it
  through free functions of the namespace \<open>ompl::msg\<close>. Each function is modelled as a
  function from the structure to the structure. Every function of the source takes the
  structure's mutex for its whole body (\<open>USE_DOH\<close>), so a call is one atomic step and
  the model is sequential.
\<close>

subsection \<open>Log levels\<close>

text \<open>
  A \<open>LogLevel\<close> is a C++ enumeration. The source compares levels with \<open>>=\<close> and
  switches on them with a \<open>default\<close> branch, so a level is modelled by its integer
  value, which also covers values outside the enumerators.
\<close>

type_synonym LogLevel = int

text \<open>
  Modelled from the spec: the enumerators of \<open>LogLevel\<close>, declared in
  \<open>ompl/util/Console.h\<close>, which is not among the source files. The spec gives the
  order \<open>DEBUG < INFO < WARN < ERROR < NONE\<close>; the values are those a C++ enumeration
  starting at zero assigns.
\<close>

definition DEBUG :: LogLevel where
  "DEBUG = 0"

definition INFO :: LogLevel where
  "INFO = 1"

definition WARN :: LogLevel where
  "WARN = 2"

definition ERROR :: LogLevel where
  "ERROR = 3"

definition NONE :: LogLevel where
  "NONE = 4"

subsection \<open>The router state\<close>

text \<open>
  An \<open>OutputHandler*\<close> is an address or \<open>NULL\<close> (\<open>None\<close>). The member
  \<open>std_output_handler\<close> is an object inside the structure; only its address is
  stored in the pointer fields, and \<open>std_output_handler\<close> below is that address.
  Field names drop the trailing underscore of the source (\<open>output_handler_\<close> is
  \<open>output_handler\<close>); the flag \<open>showLineNumbers_\<close> is \<open>showLineNumbers_flag\<close>.
\<close>

type_synonym OutputHandler_ptr = "nat option"

definition std_output_handler :: nat where
  "std_output_handler = 0"

record DefaultOutputHandler =
  output_handler :: OutputHandler_ptr
  previous_output_handler :: OutputHandler_ptr
  logLevel :: LogLevel
  showLineNumbers_flag :: bool

text \<open>The constructor \<open>DefaultOutputHandler::DefaultOutputHandler\<close>.\<close>

definition DOH :: DefaultOutputHandler where
  "DOH = \<lparr> output_handler = Some std_output_handler,
           previous_output_handler = Some std_output_handler,
           logLevel = DEBUG,
           showLineNumbers_flag = False \<rparr>"

definition noOutputHandler :: "DefaultOutputHandler \<Rightarrow> DefaultOutputHandler" where
  "noOutputHandler doh =
     (let doh1 = doh\<lparr>previous_output_handler := output_handler doh\<rparr>
      in doh1\<lparr>output_handler := None\<rparr>)"

text \<open>\<open>std::swap\<close> of the two pointer fields.\<close>

definition restorePreviousOutputHandler :: "DefaultOutputHandler \<Rightarrow> DefaultOutputHandler" where
  "restorePreviousOutputHandler doh =
     doh\<lparr>previous_output_handler := output_handler doh,
         output_handler := previous_output_handler doh\<rparr>"

definition useOutputHandler :: "OutputHandler_ptr \<Rightarrow> DefaultOutputHandler \<Rightarrow> DefaultOutputHandler" where
  "useOutputHandler oh doh =
     (let doh1 = doh\<lparr>previous_output_handler := output_handler doh\<rparr>
      in doh1\<lparr>output_handler := oh\<rparr>)"

definition getOutputHandler :: "DefaultOutputHandler \<Rightarrow> OutputHandler_ptr" where
  "getOutputHandler doh = output_handler doh"

definition setLogLevel :: "LogLevel \<Rightarrow> DefaultOutputHandler \<Rightarrow> DefaultOutputHandler" where
  "setLogLevel level doh = doh\<lparr>logLevel := level\<rparr>"

definition getLogLevel :: "DefaultOutputHandler \<Rightarrow> LogLevel" where
  "getLogLevel doh = logLevel doh"


subsection \<open>The message buffer\<close>

text \<open>
  \<open>log\<close> formats into a local array \<open>char buf[MAX_BUFFER_SIZE]\<close>. The array is a list
  of characters of that length; a store outside it and a read that runs past its end are
  the error \<open>OutOfBounds\<close>.
\<close>

datatype error = OutOfBounds

definition MAX_BUFFER_SIZE :: nat where
  "MAX_BUFFER_SIZE = 1024"

definition NUL :: char where
  "NUL = CHR 0x00"

text \<open>The assignment \<open>buf[i] = c\<close>.\<close>

definition store :: "char list \<Rightarrow> nat \<Rightarrow> char \<Rightarrow> error + char list" where
  "store buf i c = (if i < length buf then Inr (buf[i := c]) else Inl OutOfBounds)"

text \<open>
  Reading an array as a C string, as \<open>ss << buf\<close> does: the characters before the first
  \<open>NUL\<close>. Without a \<open>NUL\<close> the read leaves the array.
\<close>

fun read_c_str :: "char list \<Rightarrow> error + string" where
  "read_c_str [] = Inl OutOfBounds"
| "read_c_str (c # cs) =
     (if c = NUL then Inr []
      else (case read_c_str cs of Inl e \<Rightarrow> Inl e | Inr s \<Rightarrow> Inr (c # s)))"

text \<open>
  The C library's \<open>vsnprintf(buf, sz, m, ap)\<close>. The conversion of the format \<open>m\<close>
  with its arguments is the library's work; the model takes its outcome, the string
  \<open>expansion\<close> that an unbounded buffer would receive. Of it, \<open>vsnprintf\<close> stores at
  most \<open>sz - 1\<close> characters and then a \<open>NUL\<close>, and leaves the rest of the array as
  it was. With \<open>sz = 0\<close> nothing is stored.
\<close>

definition vsnprintf :: "char list \<Rightarrow> nat \<Rightarrow> string \<Rightarrow> error + char list" where
  "vsnprintf buf sz expansion =
     (if length buf < sz then Inl OutOfBounds
      else if sz = 0 then Inr buf
      else (let n = min (length expansion) (sz - 1)
            in Inr (take n expansion @ NUL # drop (Suc n) buf)))"

text \<open>
  Lines 114 to 117 of \<open>log\<close>: the array is declared without an initialiser, so it starts
  with indeterminate contents \<open>junk\<close>; then \<open>vsnprintf(buf, sizeof(buf), m, ap)\<close> and
  \<open>buf[MAX_BUFFER_SIZE - 1] = '\0'\<close>.
\<close>

definition format_buffer :: "(nat \<Rightarrow> char) \<Rightarrow> string \<Rightarrow> error + char list" where
  "format_buffer junk expansion =
     (let buf = map junk [0..<MAX_BUFFER_SIZE]
      in (case vsnprintf buf (length buf) expansion of
            Inl e \<Rightarrow> Inl e
          | Inr buf1 \<Rightarrow> store buf1 (MAX_BUFFER_SIZE - 1) NUL))"

subsection \<open>Output of the line number\<close>

text \<open>
  \<open>ss << line\<close> writes an \<open>int\<close> to a default-constructed \<open>std::stringstream\<close>. The
  stream's flags are the default ones (decimal, no plus sign, no padding), so the standard
  \<open>num_put\<close> facet produces the decimal digits of the absolute value, most significant
  first, and a minus sign in front of a negative number.
\<close>

function show_nat :: "nat \<Rightarrow> string" where
  "show_nat n =
     (if n < 10 then [''0123456789'' ! n]
      else show_nat (n div 10) @ [''0123456789'' ! (n mod 10)])"
  by pat_completeness auto
termination
  by (relation "measure id") auto

declare show_nat.simps [simp del]

text \<open>
  The stream is constructed with the global locale of the process, and \<open>num_put\<close> groups
  the digits as the \<open>numpunct\<close> facet of that locale says. The facet gives a separator
  character and the string \<open>grouping()\<close>, read as numbers: element 0 is the number of
  digits in the rightmost group, element 1 that of the group to its left, and so on; the
  last element is used for all further groups; an element that is not positive or is
  \<open>CHAR_MAX\<close> ends the grouping. Which locale is the global one is the host
  application's choice, so the facet is a parameter of \<open>log\<close>.
\<close>

record numpunct =
  thousands_sep :: char
  grouping :: "int list"

definition CHAR_MAX :: int where
  "CHAR_MAX = 127"

text \<open>
  The locale \<open>"C"\<close>, which is the global locale unless the host application installs
  another one: no grouping. \<open>CHAR_MAX\<close> is that of a platform where \<open>char\<close> is signed.
\<close>

definition classic :: numpunct where
  "classic = \<lparr> thousands_sep = CHR '','', grouping = [] \<rparr>"

text \<open>
  Splitting the groups off the right end of the digits \<open>ds\<close> and putting the separator in
  front of each.
\<close>

function add_grouping :: "char \<Rightarrow> int list \<Rightarrow> string \<Rightarrow> string" where
  "add_grouping sep [] ds = ds"
| "add_grouping sep (g # gs) ds =
     (if g \<le> 0 \<or> g = CHAR_MAX \<or> length ds \<le> nat g then ds
      else add_grouping sep (if gs = [] then [g] else gs) (take (length ds - nat g) ds)
           @ sep # drop (length ds - nat g) ds)"
  by pat_completeness auto
termination
  by (relation "measure (\<lambda>(sep, gs, ds). length ds)") auto

declare add_grouping.simps [simp del]

definition put_int :: "numpunct \<Rightarrow> int \<Rightarrow> string" where
  "put_int np i =
     (if i < 0
      then CHR ''-'' # add_grouping (thousands_sep np) (grouping np) (show_nat (nat (- i)))
      else add_grouping (thousands_sep np) (grouping np) (show_nat (nat i)))"

subsection \<open>The last component of the file path\<close>

text \<open>
  \<open>boost::filesystem::path(file).filename().string()\<close> is Boost's function for the last
  component of a path; the separator is \<open>/\<close> (a POSIX build). For a path that names a
  file, that is one that does not end in a separator and does not start with two
  separators (a network name), the result is the part after the last separator, the
  whole path when there is none. For the other paths the result is a convention of the
  library that differs between its versions (\<open>"."\<close> or the empty path for \<open>"a/b/"\<close>),
  so there the model takes the library's answer, the parameter \<open>boost\<close>.
\<close>

definition path_filename :: "(string \<Rightarrow> string) \<Rightarrow> string \<Rightarrow> string" where
  "path_filename boost p =
     (if (p \<noteq> [] \<and> last p = CHR ''/'') \<or> take 2 p = ''//'' then boost p
      else rev (takeWhile (\<lambda>c. c \<noteq> CHR ''/'') (rev p)))"

subsection \<open>The entry point log\<close>

text \<open>
  The four virtual methods of \<open>OutputHandler\<close>, and what a call of \<open>log\<close> does that can
  be observed: it formats (\<open>Formatted\<close>, the \<open>vsnprintf\<close> call) and it calls one method of
  the handler at an address with a text (\<open>Called\<close>).
\<close>

datatype sink = sink_error | sink_warn | sink_inform | sink_debug

datatype event = Formatted | Called nat sink string

text \<open>The \<open>switch (level)\<close> of \<open>log\<close>, case by case in the order of the source.\<close>

definition dispatch :: "LogLevel \<Rightarrow> sink" where
  "dispatch level =
     (if level = ERROR then sink_error
      else if level = WARN then sink_warn
      else if level = INFO then sink_inform
      else if level = DEBUG then sink_debug
      else if level = NONE then sink_error
      else sink_error)"

text \<open>
  \<open>log(file, line, level, m, ...)\<close>. The parameters \<open>np\<close> and \<open>boost\<close> are those of
  \<open>put_int\<close> and \<open>path_filename\<close>; \<open>junk\<close> and \<open>expansion\<close> are as in
  \<open>format_buffer\<close>. The router state is only read, so the result is the list of events,
  or the error of an access outside the buffer.
\<close>

definition log :: "numpunct \<Rightarrow> (string \<Rightarrow> string) \<Rightarrow> (nat \<Rightarrow> char) \<Rightarrow> DefaultOutputHandler
    \<Rightarrow> string \<Rightarrow> int \<Rightarrow> LogLevel \<Rightarrow> string \<Rightarrow> error + event list" where
  "log np boost junk doh file line level expansion =
     (case output_handler doh of
        None \<Rightarrow> Inr []
      | Some oh \<Rightarrow>
          if level \<ge> logLevel doh then
            (case format_buffer junk expansion of
               Inl e \<Rightarrow> Inl e
             | Inr buf \<Rightarrow>
                 (case read_c_str buf of
                    Inl e \<Rightarrow> Inl e
                  | Inr s \<Rightarrow>
                      (let ss = (if showLineNumbers_flag doh
                                 then ''line '' @ put_int np line @ '' in '' @ path_filename boost file @ '': ''
                                 else []) @ s
                       in Inr [Formatted, Called oh (dispatch level) ss])))
          else Inr [])"

subsection \<open>The output handlers\<close>

text \<open>
  What the two handlers of the file write to: the standard streams and the open
  \<open>FILE\<close> objects, each with the characters written to it so far. \<open>std::endl\<close> and
  the \<open>"\n"\<close> of the formats are the newline character.
\<close>

record world =
  cout :: string
  cerr :: string
  files :: "nat \<Rightarrow> string"

definition endl :: string where
  "endl = [CHR 0x0A]"

definition OutputHandlerSTD_error :: "string \<Rightarrow> world \<Rightarrow> world" where
  "OutputHandlerSTD_error text w = w\<lparr>cerr := cerr w @ ''Error:   '' @ text @ endl\<rparr>"

definition OutputHandlerSTD_warn :: "string \<Rightarrow> world \<Rightarrow> world" where
  "OutputHandlerSTD_warn text w = w\<lparr>cerr := cerr w @ ''Warning: '' @ text @ endl\<rparr>"

definition OutputHandlerSTD_inform :: "string \<Rightarrow> world \<Rightarrow> world" where
  "OutputHandlerSTD_inform text w = w\<lparr>cout := cout w @ ''Info:    '' @ text @ endl\<rparr>"

definition OutputHandlerSTD_debug :: "string \<Rightarrow> world \<Rightarrow> world" where
  "OutputHandlerSTD_debug text w = w\<lparr>cout := cout w @ ''Debug:   '' @ text @ endl\<rparr>"

text \<open>The virtual call of a method on an \<open>OutputHandlerSTD\<close> object.\<close>

fun OutputHandlerSTD_call :: "sink \<Rightarrow> string \<Rightarrow> world \<Rightarrow> world" where
  "OutputHandlerSTD_call sink_error text w = OutputHandlerSTD_error text w"
| "OutputHandlerSTD_call sink_warn text w = OutputHandlerSTD_warn text w"
| "OutputHandlerSTD_call sink_inform text w = OutputHandlerSTD_inform text w"
| "OutputHandlerSTD_call sink_debug text w = OutputHandlerSTD_debug text w"

text \<open>
  An \<open>OutputHandlerFile\<close> has the one member \<open>file_\<close>, a \<open>FILE*\<close> (\<open>file_ptr\<close> here;
  \<open>None\<close> is \<open>NULL\<close>). Whether \<open>fopen(filename, "a")\<close> succeeds is the operating
  system's decision: \<open>fopen_a\<close> gives for each path the \<open>FILE\<close> it returns, or
  \<open>None\<close> when the open fails. The constructor returns the object and the world.
\<close>

record OutputHandlerFile =
  file_ptr :: "nat option"

definition OutputHandlerFile_ctor ::
    "(string \<Rightarrow> nat option) \<Rightarrow> string \<Rightarrow> world \<Rightarrow> OutputHandlerFile \<times> world" where
  "OutputHandlerFile_ctor fopen_a filename w =
     (let f = fopen_a filename
      in (\<lparr>file_ptr = f\<rparr>,
          if f = None
          then w\<lparr>cerr := cerr w @ ''Unable to open log file: '' @ [CHR 0x27] @ filename
                          @ [CHR 0x27] @ endl\<rparr>
          else w))"

text \<open>
  \<open>fprintf(file_, "<tag>%s\n", text.c_str())\<close>: the conversion \<open>%s\<close> writes the
  characters of \<open>text\<close> before its first \<open>NUL\<close>.
\<close>

definition fprintf_s :: "nat \<Rightarrow> string \<Rightarrow> string \<Rightarrow> world \<Rightarrow> world" where
  "fprintf_s f tag text w =
     w\<lparr>files := (files w)(f := files w f @ tag @ takeWhile (\<lambda>c. c \<noteq> NUL) text @ endl)\<rparr>"

definition OutputHandlerFile_error :: "OutputHandlerFile \<Rightarrow> string \<Rightarrow> world \<Rightarrow> world" where
  "OutputHandlerFile_error h text w =
     (case file_ptr h of None \<Rightarrow> w | Some f \<Rightarrow> fprintf_s f ''Error:   '' text w)"

definition OutputHandlerFile_warn :: "OutputHandlerFile \<Rightarrow> string \<Rightarrow> world \<Rightarrow> world" where
  "OutputHandlerFile_warn h text w =
     (case file_ptr h of None \<Rightarrow> w | Some f \<Rightarrow> fprintf_s f ''Warning: '' text w)"

definition OutputHandlerFile_inform :: "OutputHandlerFile \<Rightarrow> string \<Rightarrow> world \<Rightarrow> world" where
  "OutputHandlerFile_inform h text w =
     (case file_ptr h of None \<Rightarrow> w | Some f \<Rightarrow> fprintf_s f ''Info:    '' text w)"

definition OutputHandlerFile_debug :: "OutputHandlerFile \<Rightarrow> string \<Rightarrow> world \<Rightarrow> world" where
  "OutputHandlerFile_debug h text w =
     (case file_ptr h of None \<Rightarrow> w | Some f \<Rightarrow> fprintf_s f ''Debug:   '' text w)"

text \<open>
  The virtual call of a method on an \<open>OutputHandlerFile\<close> object, and a sequence of such
  calls on the same object, one after the other.
\<close>

fun OutputHandlerFile_call :: "OutputHandlerFile \<Rightarrow> sink \<Rightarrow> string \<Rightarrow> world \<Rightarrow> world" where
  "OutputHandlerFile_call h sink_error text w = OutputHandlerFile_error h text w"
| "OutputHandlerFile_call h sink_warn text w = OutputHandlerFile_warn h text w"
| "OutputHandlerFile_call h sink_inform text w = OutputHandlerFile_inform h text w"
| "OutputHandlerFile_call h sink_debug text w = OutputHandlerFile_debug h text w"

fun OutputHandlerFile_calls :: "OutputHandlerFile \<Rightarrow> (sink \<times> string) list \<Rightarrow> world \<Rightarrow> world" where
  "OutputHandlerFile_calls h [] w = w"
| "OutputHandlerFile_calls h ((m, text) # cs) w =
     OutputHandlerFile_calls h cs (OutputHandlerFile_call h m text w)"

section \<open>Auxiliary facts about the buffer and the level check\<close>

lemmas LogLevel_defs = DEBUG_def INFO_def WARN_def ERROR_def NONE_def

lemma read_c_str_terminated:
  "read_c_str (xs @ NUL # ys) = Inr (takeWhile (\<lambda>c. c \<noteq> NUL) xs)"
  by (induction xs) simp_all

lemma vsnprintf_whole_buffer:
  "vsnprintf (map junk [0..<MAX_BUFFER_SIZE]) MAX_BUFFER_SIZE expansion =
     Inr (take (MAX_BUFFER_SIZE - 1) expansion @ NUL
          # drop (Suc (min (length expansion) (MAX_BUFFER_SIZE - 1))) (map junk [0..<MAX_BUFFER_SIZE]))"
  by (simp add: vsnprintf_def MAX_BUFFER_SIZE_def Let_def min_def)

lemma update_behind_terminator:
  "length xs \<le> i \<Longrightarrow> \<exists>zs. (xs @ NUL # ys)[i := NUL] = xs @ NUL # zs"
  by (cases "i - length xs") (auto simp: list_update_append)

lemma format_buffer_result:
  "\<exists>zs. format_buffer junk expansion = Inr (take (MAX_BUFFER_SIZE - 1) expansion @ NUL # zs)
        \<and> length (take (MAX_BUFFER_SIZE - 1) expansion @ NUL # zs) = MAX_BUFFER_SIZE
        \<and> (take (MAX_BUFFER_SIZE - 1) expansion @ NUL # zs) ! (MAX_BUFFER_SIZE - 1) = NUL"
proof -
  let ?xs = "take (MAX_BUFFER_SIZE - 1) expansion"
  let ?ys = "drop (Suc (min (length expansion) (MAX_BUFFER_SIZE - 1))) (map junk [0..<MAX_BUFFER_SIZE])"
  have len: "length (?xs @ NUL # ?ys) = MAX_BUFFER_SIZE"
    by (simp add: MAX_BUFFER_SIZE_def)
  have pos: "MAX_BUFFER_SIZE - 1 < MAX_BUFFER_SIZE"
    by (simp add: MAX_BUFFER_SIZE_def)
  have "length ?xs \<le> MAX_BUFFER_SIZE - 1"
    by simp
  from update_behind_terminator [OF this, of ?ys]
  obtain zs where zs: "(?xs @ NUL # ?ys)[MAX_BUFFER_SIZE - 1 := NUL] = ?xs @ NUL # zs"
    by blast
  have "format_buffer junk expansion = store (?xs @ NUL # ?ys) (MAX_BUFFER_SIZE - 1) NUL"
    by (simp add: format_buffer_def vsnprintf_whole_buffer)
  also have "\<dots> = Inr ((?xs @ NUL # ?ys)[MAX_BUFFER_SIZE - 1 := NUL])"
    unfolding store_def using len pos by presburger
  finally have fb: "format_buffer junk expansion = Inr (?xs @ NUL # zs)"
    using zs by simp
  have "length ((?xs @ NUL # ?ys)[MAX_BUFFER_SIZE - 1 := NUL]) = MAX_BUFFER_SIZE"
    using len by (simp only: length_list_update)
  then have "length (?xs @ NUL # zs) = MAX_BUFFER_SIZE"
    unfolding zs .
  moreover have "(?xs @ NUL # ?ys)[MAX_BUFFER_SIZE - 1 := NUL] ! (MAX_BUFFER_SIZE - 1) = NUL"
    using len pos by (simp only: nth_list_update_eq)
  then have "(?xs @ NUL # zs) ! (MAX_BUFFER_SIZE - 1) = NUL"
    unfolding zs .
  ultimately show ?thesis
    using fb by blast
qed

lemma log_dispatched:
  assumes "output_handler doh = Some oh" and "logLevel doh \<le> level"
  shows "log np boost junk doh file line level expansion =
           Inr [Formatted,
                Called oh (dispatch level)
                  ((if showLineNumbers_flag doh
                    then ''line '' @ put_int np line @ '' in '' @ path_filename boost file @ '': ''
                    else [])
                   @ takeWhile (\<lambda>c. c \<noteq> NUL) (take (MAX_BUFFER_SIZE - 1) expansion))]"
proof -
  from format_buffer_result [of junk expansion]
  obtain zs where "format_buffer junk expansion = Inr (take (MAX_BUFFER_SIZE - 1) expansion @ NUL # zs)"
    by blast
  with assms show ?thesis
    by (simp add: log_def read_c_str_terminated)
qed

lemma log_gated:
  assumes "output_handler doh = None \<or> level < logLevel doh"
  shows "log np boost junk doh file line level expansion = Inr []"
  using assms by (auto simp: log_def split: option.splits)

lemma OutputHandlerFile_calls_inert:
  "file_ptr h = None \<Longrightarrow> OutputHandlerFile_calls h cs w = w"
proof (induction cs arbitrary: w)
  case Nil
  show ?case by simp
next
  case (Cons c cs)
  obtain m t where c: "c = (m, t)"
    by (cases c)
  have "OutputHandlerFile_call h m t w = w"
    using Cons.prems
    by (cases m)
       (simp_all add: OutputHandlerFile_error_def OutputHandlerFile_warn_def
          OutputHandlerFile_inform_def OutputHandlerFile_debug_def)
  with Cons c show ?case by simp
qed













section \<open>Properties of the handler slots\<close>

text \<open>
  C2. In every router state, \<open>noOutputHandler\<close> followed by
  \<open>restorePreviousOutputHandler\<close> leaves installed exactly the handler that was current
  before \<open>noOutputHandler\<close> was called.
\<close>

theorem disable_then_restore_current:
  "getOutputHandler (restorePreviousOutputHandler (noOutputHandler doh)) = getOutputHandler doh"
  by (simp add: getOutputHandler_def restorePreviousOutputHandler_def noOutputHandler_def)

text \<open>
  C3. In every router state, two calls of \<open>restorePreviousOutputHandler\<close> in a row give
  back the state before the first call, current and previous handler included: the swap
  is its own inverse.
\<close>

theorem restore_twice_identity:
  "restorePreviousOutputHandler (restorePreviousOutputHandler doh) = doh"
  by (simp add: restorePreviousOutputHandler_def)

text \<open>
  C4. In every router state, \<open>useOutputHandler\<close> with the null handler gives the same
  state as \<open>noOutputHandler\<close>: the current handler is null and the previous handler is
  the formerly current one.
\<close>

theorem use_null_equals_disable:
  "useOutputHandler None doh = noOutputHandler doh
   \<and> output_handler (useOutputHandler None doh) = None
   \<and> previous_output_handler (useOutputHandler None doh) = output_handler doh"
  by (simp add: useOutputHandler_def noOutputHandler_def)

section \<open>Properties of log\<close>

text \<open>
  C1. For every call of \<open>log\<close>: when a handler is installed and the level is at least
  the configured minimum, \<open>log\<close> makes exactly one call, to the handler's method that
  matches the level (\<open>DEBUG\<close> to \<open>debug\<close>, \<open>INFO\<close> to \<open>inform\<close>, \<open>WARN\<close> to
  \<open>warn\<close>, \<open>ERROR\<close> to \<open>error\<close>); when no handler is installed or the level is
  strictly below the minimum, \<open>log\<close> neither formats nor calls anything.
\<close>

theorem log_level_gate:
  "(output_handler doh = Some oh \<and> logLevel doh \<le> level \<longrightarrow>
      (\<exists>m t. log np boost junk doh file line level expansion = Inr [Formatted, Called oh m t]
         \<and> (level = DEBUG \<longrightarrow> m = sink_debug)
         \<and> (level = INFO \<longrightarrow> m = sink_inform)
         \<and> (level = WARN \<longrightarrow> m = sink_warn)
         \<and> (level = ERROR \<longrightarrow> m = sink_error)))
   \<and> (output_handler doh = None \<or> level < logLevel doh \<longrightarrow>
        log np boost junk doh file line level expansion = Inr [])"
proof (intro conjI impI)
  assume "output_handler doh = Some oh \<and> logLevel doh \<le> level"
  then have "log np boost junk doh file line level expansion =
      Inr [Formatted,
           Called oh (dispatch level)
             ((if showLineNumbers_flag doh
               then ''line '' @ put_int np line @ '' in '' @ path_filename boost file @ '': ''
               else [])
              @ takeWhile (\<lambda>c. c \<noteq> NUL) (take (MAX_BUFFER_SIZE - 1) expansion))]"
    by (simp add: log_dispatched)
  moreover have "level = DEBUG \<longrightarrow> dispatch level = sink_debug"
    and "level = INFO \<longrightarrow> dispatch level = sink_inform"
    and "level = WARN \<longrightarrow> dispatch level = sink_warn"
    and "level = ERROR \<longrightarrow> dispatch level = sink_error"
    by (simp_all add: dispatch_def LogLevel_defs)
  ultimately show "\<exists>m t. log np boost junk doh file line level expansion = Inr [Formatted, Called oh m t]
         \<and> (level = DEBUG \<longrightarrow> m = sink_debug)
         \<and> (level = INFO \<longrightarrow> m = sink_inform)
         \<and> (level = WARN \<longrightarrow> m = sink_warn)
         \<and> (level = ERROR \<longrightarrow> m = sink_error)"
    by blast
next
  assume "output_handler doh = None \<or> level < logLevel doh"
  then show "log np boost junk doh file line level expansion = Inr []"
    by (rule log_gated)
qed

theorem log_level_gate_witness:
  "(\<exists>t. log classic (\<lambda>p. p) (\<lambda>i. CHR ''?'') DOH ''a.cpp'' 7 DEBUG ''hello''
          = Inr [Formatted, Called std_output_handler sink_debug t])
   \<and> (\<exists>t. log classic (\<lambda>p. p) (\<lambda>i. CHR ''?'') DOH ''a.cpp'' 7 INFO ''hello''
          = Inr [Formatted, Called std_output_handler sink_inform t])
   \<and> (\<exists>t. log classic (\<lambda>p. p) (\<lambda>i. CHR ''?'') (setLogLevel INFO DOH) ''a.cpp'' 7 WARN ''hello''
          = Inr [Formatted, Called std_output_handler sink_warn t])
   \<and> (\<exists>t. log classic (\<lambda>p. p) (\<lambda>i. CHR ''?'') (setLogLevel ERROR DOH) ''a.cpp'' 7 ERROR ''hello''
          = Inr [Formatted, Called std_output_handler sink_error t])
   \<and> log classic (\<lambda>p. p) (\<lambda>i. CHR ''?'') (noOutputHandler DOH) ''a.cpp'' 7 ERROR ''hello'' = Inr []
   \<and> log classic (\<lambda>p. p) (\<lambda>i. CHR ''?'') (setLogLevel WARN DOH) ''a.cpp'' 7 INFO ''hello'' = Inr []"
proof (intro conjI)
  show "\<exists>t. log classic (\<lambda>p. p) (\<lambda>i. CHR ''?'') DOH ''a.cpp'' 7 DEBUG ''hello''
          = Inr [Formatted, Called std_output_handler sink_debug t]"
    using log_level_gate [of DOH std_output_handler DEBUG classic "\<lambda>p. p" "\<lambda>i. CHR ''?''" "''a.cpp''" 7 "''hello''"]
    by (simp add: DOH_def LogLevel_defs)
  show "\<exists>t. log classic (\<lambda>p. p) (\<lambda>i. CHR ''?'') DOH ''a.cpp'' 7 INFO ''hello''
          = Inr [Formatted, Called std_output_handler sink_inform t]"
    using log_level_gate [of DOH std_output_handler INFO classic "\<lambda>p. p" "\<lambda>i. CHR ''?''" "''a.cpp''" 7 "''hello''"]
    by (simp add: DOH_def LogLevel_defs)
  show "\<exists>t. log classic (\<lambda>p. p) (\<lambda>i. CHR ''?'') (setLogLevel INFO DOH) ''a.cpp'' 7 WARN ''hello''
          = Inr [Formatted, Called std_output_handler sink_warn t]"
    using log_level_gate [of "setLogLevel INFO DOH" std_output_handler WARN classic "\<lambda>p. p" "\<lambda>i. CHR ''?''" "''a.cpp''" 7 "''hello''"]
    by (simp add: DOH_def setLogLevel_def LogLevel_defs)
  show "\<exists>t. log classic (\<lambda>p. p) (\<lambda>i. CHR ''?'') (setLogLevel ERROR DOH) ''a.cpp'' 7 ERROR ''hello''
          = Inr [Formatted, Called std_output_handler sink_error t]"
    using log_level_gate [of "setLogLevel ERROR DOH" std_output_handler ERROR classic "\<lambda>p. p" "\<lambda>i. CHR ''?''" "''a.cpp''" 7 "''hello''"]
    by (simp add: DOH_def setLogLevel_def LogLevel_defs)
  show "log classic (\<lambda>p. p) (\<lambda>i. CHR ''?'') (noOutputHandler DOH) ''a.cpp'' 7 ERROR ''hello'' = Inr []"
    using log_level_gate [of "noOutputHandler DOH" std_output_handler ERROR classic "\<lambda>p. p" "\<lambda>i. CHR ''?''" "''a.cpp''" 7 "''hello''"]
    by (simp add: DOH_def noOutputHandler_def LogLevel_defs)
  show "log classic (\<lambda>p. p) (\<lambda>i. CHR ''?'') (setLogLevel WARN DOH) ''a.cpp'' 7 INFO ''hello'' = Inr []"
    using log_level_gate [of "setLogLevel WARN DOH" std_output_handler INFO classic "\<lambda>p. p" "\<lambda>i. CHR ''?''" "''a.cpp''" 7 "''hello''"]
    by (simp add: DOH_def setLogLevel_def LogLevel_defs)
qed







text \<open>
  C7. For every call of \<open>log\<close> that passes the handler and level checks and whose level
  is the sentinel \<open>NONE\<close> or a value that is none of the enumerators, the one call made
  is to the handler's \<open>error\<close> method; the call of \<open>log\<close> itself ends normally, with
  no error of its own.
\<close>

theorem log_unrecognized_level_is_error:
  assumes "output_handler doh = Some oh" and "logLevel doh \<le> level"
    and "level = NONE \<or> level \<notin> {DEBUG, INFO, WARN, ERROR}"
  shows "\<exists>t. log np boost junk doh file line level expansion
                = Inr [Formatted, Called oh sink_error t]"
proof -
  from assms(3) have "dispatch level = sink_error"
    by (auto simp: dispatch_def LogLevel_defs)
  then show ?thesis
    by (simp add: log_dispatched [OF assms(1,2)])
qed

theorem log_unrecognized_level_is_error_witness:
  "(\<exists>t. log classic (\<lambda>p. p) (\<lambda>i. CHR ''?'') DOH ''a.cpp'' 7 NONE ''hello''
          = Inr [Formatted, Called std_output_handler sink_error t])
   \<and> (\<exists>t. log classic (\<lambda>p. p) (\<lambda>i. CHR ''?'') DOH ''a.cpp'' 7 17 ''hello''
          = Inr [Formatted, Called std_output_handler sink_error t])"
proof
  have h1: "output_handler DOH = Some std_output_handler"
    by (simp add: DOH_def)
  have h2: "logLevel DOH \<le> NONE"
    by (simp add: DOH_def LogLevel_defs)
  have h3: "NONE = NONE \<or> NONE \<notin> {DEBUG, INFO, WARN, ERROR}"
    by simp
  show "\<exists>t. log classic (\<lambda>p. p) (\<lambda>i. CHR ''?'') DOH ''a.cpp'' 7 NONE ''hello''
          = Inr [Formatted, Called std_output_handler sink_error t]"
    using log_unrecognized_level_is_error [OF h1 h2 h3] .
  have h4: "logLevel DOH \<le> 17"
    by (simp add: DOH_def LogLevel_defs)
  have h5: "(17::int) = NONE \<or> 17 \<notin> {DEBUG, INFO, WARN, ERROR}"
    by (simp add: LogLevel_defs)
  show "\<exists>t. log classic (\<lambda>p. p) (\<lambda>i. CHR ''?'') DOH ''a.cpp'' 7 17 ''hello''
          = Inr [Formatted, Called std_output_handler sink_error t]"
    using log_unrecognized_level_is_error [OF h1 h4 h5] .
qed

text \<open>
  C8. For every path whose open in append mode fails when an \<open>OutputHandlerFile\<close> is
  constructed: the constructor returns normally, writes one line to standard error that
  names the path, and leaves the file pointer null; from then on every call of
  \<open>error\<close>, \<open>warn\<close>, \<open>inform\<close> or \<open>debug\<close> on the object, in any number and
  order, changes nothing.
\<close>

theorem file_handler_inert_after_failed_open:
  assumes "fopen_a filename = None"
  shows "file_ptr (fst (OutputHandlerFile_ctor fopen_a filename w)) = None
       \<and> snd (OutputHandlerFile_ctor fopen_a filename w) =
           w\<lparr>cerr := cerr w @ ''Unable to open log file: '' @ [CHR 0x27] @ filename
                       @ [CHR 0x27] @ endl\<rparr>
       \<and> (\<forall>m t w'. OutputHandlerFile_call
                      (fst (OutputHandlerFile_ctor fopen_a filename w)) m t w' = w')
       \<and> (\<forall>cs w'. OutputHandlerFile_calls
                     (fst (OutputHandlerFile_ctor fopen_a filename w)) cs w' = w')"
proof -
  let ?h = "fst (OutputHandlerFile_ctor fopen_a filename w)"
  have null: "file_ptr ?h = None"
    using assms by (simp add: OutputHandlerFile_ctor_def)
  have "snd (OutputHandlerFile_ctor fopen_a filename w) =
           w\<lparr>cerr := cerr w @ ''Unable to open log file: '' @ [CHR 0x27] @ filename
                       @ [CHR 0x27] @ endl\<rparr>"
    using assms by (simp add: OutputHandlerFile_ctor_def)
  moreover have "OutputHandlerFile_calls ?h cs w' = w'" for cs w'
    using null by (rule OutputHandlerFile_calls_inert)
  moreover have "OutputHandlerFile_call ?h m t w' = w'" for m t w'
    using OutputHandlerFile_calls_inert [OF null, of "[(m, t)]" w'] by simp
  ultimately show ?thesis
    using null by blast
qed

theorem file_handler_inert_after_failed_open_witness:
  "cerr (snd (OutputHandlerFile_ctor (\<lambda>p. None) ''/proc/x.log''
                \<lparr>cout = [], cerr = [], files = (\<lambda>f. [])\<rparr>))
     = ''Unable to open log file: '' @ [CHR 0x27] @ ''/proc/x.log'' @ [CHR 0x27, CHR 0x0A]
   \<and> OutputHandlerFile_calls
       (fst (OutputHandlerFile_ctor (\<lambda>p. None) ''/proc/x.log''
                \<lparr>cout = [], cerr = [], files = (\<lambda>f. [])\<rparr>))
       [(sink_error, ''a''), (sink_warn, ''b''), (sink_inform, ''c''), (sink_debug, ''d'')]
       \<lparr>cout = ''o'', cerr = ''e'', files = (\<lambda>f. [])\<rparr>
     = \<lparr>cout = ''o'', cerr = ''e'', files = (\<lambda>f. [])\<rparr>"
proof -
  from file_handler_inert_after_failed_open
         [where fopen_a = "\<lambda>p. None" and filename = "''/proc/x.log''"
            and w = "\<lparr>cout = [], cerr = [], files = (\<lambda>f. [])\<rparr>"]
  show ?thesis
    by (simp add: endl_def del: OutputHandlerFile_calls.simps)
qed

text \<open>
  C9. After \<open>setLogLevel(NONE)\<close>, a call of \<open>log\<close> with any of the levels \<open>DEBUG\<close>,
  \<open>INFO\<close>, \<open>WARN\<close>, \<open>ERROR\<close> neither formats nor calls anything, since each of them
  is below \<open>NONE\<close>; a call with the level \<open>NONE\<close> itself passes the check and, with a
  handler installed, calls the handler's \<open>error\<close> method.
\<close>

theorem log_after_setLogLevel_NONE:
  "(level \<in> {DEBUG, INFO, WARN, ERROR} \<longrightarrow>
      level < NONE
      \<and> log np boost junk (setLogLevel NONE doh) file line level expansion = Inr [])
   \<and> (output_handler doh = Some oh \<longrightarrow>
        (\<exists>t. log np boost junk (setLogLevel NONE doh) file line NONE expansion
                = Inr [Formatted, Called oh sink_error t]))"
proof (intro conjI impI)
  assume lv: "level \<in> {DEBUG, INFO, WARN, ERROR}"
  then show below: "level < NONE"
    by (auto simp: LogLevel_defs)
  then have "output_handler (setLogLevel NONE doh) = None \<or> level < logLevel (setLogLevel NONE doh)"
    by (simp add: setLogLevel_def)
  then show "log np boost junk (setLogLevel NONE doh) file line level expansion = Inr []"
    by (rule log_gated)
next
  assume "output_handler doh = Some oh"
  then have h: "output_handler (setLogLevel NONE doh) = Some oh"
    and g: "logLevel (setLogLevel NONE doh) \<le> NONE"
    by (simp_all add: setLogLevel_def)
  have "dispatch NONE = sink_error"
    by (simp add: dispatch_def LogLevel_defs)
  then show "\<exists>t. log np boost junk (setLogLevel NONE doh) file line NONE expansion
                = Inr [Formatted, Called oh sink_error t]"
    by (simp add: log_dispatched [OF h g])
qed

theorem log_after_setLogLevel_NONE_witness:
  "log classic (\<lambda>p. p) (\<lambda>i. CHR ''?'') (setLogLevel NONE DOH) ''a.cpp'' 7 DEBUG ''hello'' = Inr []
   \<and> log classic (\<lambda>p. p) (\<lambda>i. CHR ''?'') (setLogLevel NONE DOH) ''a.cpp'' 7 INFO ''hello'' = Inr []
   \<and> log classic (\<lambda>p. p) (\<lambda>i. CHR ''?'') (setLogLevel NONE DOH) ''a.cpp'' 7 WARN ''hello'' = Inr []
   \<and> log classic (\<lambda>p. p) (\<lambda>i. CHR ''?'') (setLogLevel NONE DOH) ''a.cpp'' 7 ERROR ''hello'' = Inr []
   \<and> (\<exists>t. log classic (\<lambda>p. p) (\<lambda>i. CHR ''?'') (setLogLevel NONE DOH) ''a.cpp'' 7 NONE ''hello''
            = Inr [Formatted, Called std_output_handler sink_error t])"
proof (intro conjI)
  show "log classic (\<lambda>p. p) (\<lambda>i. CHR ''?'') (setLogLevel NONE DOH) ''a.cpp'' 7 DEBUG ''hello'' = Inr []"
    using log_after_setLogLevel_NONE [of DEBUG classic "\<lambda>p. p" "\<lambda>i. CHR ''?''" DOH "''a.cpp''" 7 "''hello''" std_output_handler]
    by (simp add: LogLevel_defs)
  show "log classic (\<lambda>p. p) (\<lambda>i. CHR ''?'') (setLogLevel NONE DOH) ''a.cpp'' 7 INFO ''hello'' = Inr []"
    using log_after_setLogLevel_NONE [of INFO classic "\<lambda>p. p" "\<lambda>i. CHR ''?''" DOH "''a.cpp''" 7 "''hello''" std_output_handler]
    by (simp add: LogLevel_defs)
  show "log classic (\<lambda>p. p) (\<lambda>i. CHR ''?'') (setLogLevel NONE DOH) ''a.cpp'' 7 WARN ''hello'' = Inr []"
    using log_after_setLogLevel_NONE [of WARN classic "\<lambda>p. p" "\<lambda>i. CHR ''?''" DOH "''a.cpp''" 7 "''hello''" std_output_handler]
    by (simp add: LogLevel_defs)
  show "log classic (\<lambda>p. p) (\<lambda>i. CHR ''?'') (setLogLevel NONE DOH) ''a.cpp'' 7 ERROR ''hello'' = Inr []"
    using log_after_setLogLevel_NONE [of ERROR classic "\<lambda>p. p" "\<lambda>i. CHR ''?''" DOH "''a.cpp''" 7 "''hello''" std_output_handler]
    by (simp add: LogLevel_defs)
  show "\<exists>t. log classic (\<lambda>p. p) (\<lambda>i. CHR ''?'') (setLogLevel NONE DOH) ''a.cpp'' 7 NONE ''hello''
            = Inr [Formatted, Called std_output_handler sink_error t]"
    using log_after_setLogLevel_NONE [of NONE classic "\<lambda>p. p" "\<lambda>i. CHR ''?''" DOH "''a.cpp''" 7 "''hello''" std_output_handler]
    by (simp add: DOH_def LogLevel_defs)
qed

text \<open>
  C10. In the freshly constructed router state the previous handler equals the current
  handler and both are the built-in console handler; so \<open>restorePreviousOutputHandler\<close>
  called before any other change of the handlers leaves the state as it is: the
  installed handler is not null and a logged message is still given to the console
  handler, whose methods append the tagged text to standard output or standard error.
\<close>

theorem initial_restore_keeps_console:
  "output_handler DOH = Some std_output_handler
   \<and> previous_output_handler DOH = output_handler DOH
   \<and> restorePreviousOutputHandler DOH = DOH
   \<and> getOutputHandler (restorePreviousOutputHandler DOH) = Some std_output_handler
   \<and> getOutputHandler (restorePreviousOutputHandler DOH) \<noteq> None
   \<and> (DEBUG \<le> level \<longrightarrow>
        log np boost junk (restorePreviousOutputHandler DOH) file line level expansion =
          Inr [Formatted,
               Called std_output_handler (dispatch level)
                 (takeWhile (\<lambda>c. c \<noteq> NUL) (take (MAX_BUFFER_SIZE - 1) expansion))])
   \<and> (\<exists>tag. OutputHandlerSTD_call m t w = w\<lparr>cout := cout w @ tag @ t @ endl\<rparr>
             \<or> OutputHandlerSTD_call m t w = w\<lparr>cerr := cerr w @ tag @ t @ endl\<rparr>)"
proof -
  have console: "\<exists>tag. OutputHandlerSTD_call m t w = w\<lparr>cout := cout w @ tag @ t @ endl\<rparr>
             \<or> OutputHandlerSTD_call m t w = w\<lparr>cerr := cerr w @ tag @ t @ endl\<rparr>"
  proof (cases m)
    case sink_error
    then have "OutputHandlerSTD_call m t w = w\<lparr>cerr := cerr w @ ''Error:   '' @ t @ endl\<rparr>"
      by (simp add: OutputHandlerSTD_error_def)
    then show ?thesis by blast
  next
    case sink_warn
    then have "OutputHandlerSTD_call m t w = w\<lparr>cerr := cerr w @ ''Warning: '' @ t @ endl\<rparr>"
      by (simp add: OutputHandlerSTD_warn_def)
    then show ?thesis by blast
  next
    case sink_inform
    then have "OutputHandlerSTD_call m t w = w\<lparr>cout := cout w @ ''Info:    '' @ t @ endl\<rparr>"
      by (simp add: OutputHandlerSTD_inform_def)
    then show ?thesis by blast
  next
    case sink_debug
    then have "OutputHandlerSTD_call m t w = w\<lparr>cout := cout w @ ''Debug:   '' @ t @ endl\<rparr>"
      by (simp add: OutputHandlerSTD_debug_def)
    then show ?thesis by blast
  qed
  have same: "restorePreviousOutputHandler DOH = DOH"
    by (simp add: restorePreviousOutputHandler_def DOH_def)
  have cur: "output_handler DOH = Some std_output_handler"
    and prev: "previous_output_handler DOH = output_handler DOH"
    and flag: "\<not> showLineNumbers_flag DOH"
    and lvl: "logLevel DOH = DEBUG"
    by (simp_all add: DOH_def)
  have "log np boost junk DOH file line level expansion =
          Inr [Formatted,
               Called std_output_handler (dispatch level)
                 (takeWhile (\<lambda>c. c \<noteq> NUL) (take (MAX_BUFFER_SIZE - 1) expansion))]"
    if "DEBUG \<le> level"
    using that flag lvl by (simp add: log_dispatched [OF cur])
  with same cur prev console show ?thesis
    by (simp add: getOutputHandler_def)
qed

theorem initial_restore_keeps_console_witness:
  "log classic (\<lambda>p. p) (\<lambda>i. CHR ''?'') (restorePreviousOutputHandler DOH) ''a.cpp'' 7 INFO ''hello''
     = Inr [Formatted, Called std_output_handler sink_inform ''hello'']"
proof -
  have h: "DEBUG \<le> INFO"
    by (simp add: LogLevel_defs)
  have d: "dispatch INFO = sink_inform"
    by (simp add: dispatch_def LogLevel_defs)
  from initial_restore_keeps_console [of INFO classic "\<lambda>p. p" "\<lambda>i. CHR ''?''" "''a.cpp''" 7 "''hello''"] h
  have "log classic (\<lambda>p. p) (\<lambda>i. CHR ''?'') (restorePreviousOutputHandler DOH) ''a.cpp'' 7 INFO ''hello''
     = Inr [Formatted,
            Called std_output_handler (dispatch INFO)
              (takeWhile (\<lambda>c. c \<noteq> NUL) (take (MAX_BUFFER_SIZE - 1) ''hello''))]"
    by blast
  then show ?thesis
    unfolding d by (simp add: NUL_def MAX_BUFFER_SIZE_def)
qed

end
